theory Spec2Isabelle
  imports Main "HOL-Library.Char_ord" "HOL-Library.List_Lexorder" "HOL-Library.Multiset"
begin

section \<open>Python strings\<close>

text \<open>
  A Python \<open>str\<close> is modelled as a \<open>string\<close>, one \<open>char\<close> per code point, restricted to
  the code points below 256.  \<open>isspace\<close> is \<open>str.isspace\<close> on that range; the same set is
  what \<open>\s\<close> matches in a \<open>str\<close> pattern of the \<open>re\<close> module and what \<open>str.strip()\<close>
  removes.
\<close>

definition isspace :: "char \<Rightarrow> bool" where
  "isspace c =
     (let n = (of_char c :: nat)
      in (9 \<le> n \<and> n \<le> 13) \<or> (28 \<le> n \<and> n \<le> 32) \<or> n = 133 \<or> n = 160)"

definition newline :: char where
  "newline = CHR 0x0A"

definition lstrip :: "string \<Rightarrow> string" where
  "lstrip s = dropWhile isspace s"

definition rstrip :: "string \<Rightarrow> string" where
  "rstrip s = rev (dropWhile isspace (rev s))"

definition strip :: "string \<Rightarrow> string" where
  "strip s = rstrip (lstrip s)"

definition rstrip_chars :: "string \<Rightarrow> string \<Rightarrow> string" where
  \<comment> \<open>\<open>s.rstrip(chars)\<close>: removes every trailing character that occurs in \<open>chars\<close>.\<close>
  "rstrip_chars chars s = rev (dropWhile (\<lambda>c. c \<in> set chars) (rev s))"

fun split_on :: "char \<Rightarrow> string \<Rightarrow> string list" where
  \<comment> \<open>\<open>s.split(sep)\<close> for a one-character separator: never empty.\<close>
  "split_on sep [] = [[]]"
| "split_on sep (c # cs) =
     (if c = sep then [] # split_on sep cs
      else (case split_on sep cs of
              [] \<Rightarrow> [[c]]
            | w # ws \<Rightarrow> (c # w) # ws))"

fun split_once :: "char \<Rightarrow> string \<Rightarrow> string \<times> string" where
  \<comment> \<open>\<open>s.split(sep, 1)\<close> on a string known to contain \<open>sep\<close>: the text before the first
      separator and the text after it.\<close>
  "split_once sep [] = ([], [])"
| "split_once sep (c # cs) =
     (if c = sep then ([], cs)
      else (case split_once sep cs of (k, v) \<Rightarrow> (c # k, v)))"

fun join :: "string \<Rightarrow> string list \<Rightarrow> string" where
  "join sep [] = []"
| "join sep [x] = x"
| "join sep (x # y # ys) = x @ sep @ join sep (y # ys)"

definition startswith :: "string \<Rightarrow> string \<Rightarrow> bool" where
  "startswith s p = (take (length p) s = p)"

definition endswith :: "string \<Rightarrow> string \<Rightarrow> bool" where
  "endswith s p = (length p \<le> length s \<and> drop (length s - length p) s = p)"

function digits :: "nat \<Rightarrow> string" where
  "digits n =
     (if n < 10 then [char_of (48 + n)]
      else digits (n div 10) @ [char_of (48 + n mod 10)])"
  by pat_completeness auto
termination
  by (relation "measure id") auto

definition str_int :: "int \<Rightarrow> string" where
  \<comment> \<open>\<open>str(n)\<close> for an integer.\<close>
  "str_int i = (if i < 0 then CHR ''-'' # digits (nat (- i)) else digits (nat i))"

section \<open>The fragment of \<open>re\<close> the scripts use\<close>

text \<open>
  The patterns of the two scripts are sequences of items: a literal string, one character
  of a class, a class under \<open>+\<close>, \<open>+?\<close>, \<open>*\<close> or \<open>*?\<close>, an optional literal group
  \<open>(lit)?\<close>, and \<open>$\<close>.  \<open>rmatch\<close> is the backtracking matcher of \<open>re\<close> on such a
  sequence, anchored at the start of its input: a greedy item tries the longest repetition
  first, a lazy one the shortest, and the first alternative that lets the rest of the
  pattern match wins.  The result lists, item by item, the text each item matched; the text
  after the match is left unconstrained.
\<close>

datatype cls =
    Ch char          \<comment> \<open>a literal character\<close>
  | OneOf string     \<comment> \<open>\<open>[...]\<close>\<close>
  | NoneOf string    \<comment> \<open>\<open>[^...]\<close>\<close>
  | Space            \<comment> \<open>\<open>\s\<close>\<close>
  | Dot              \<comment> \<open>\<open>.\<close> under \<open>re.DOTALL\<close>\<close>

fun in_cls :: "cls \<Rightarrow> char \<Rightarrow> bool" where
  "in_cls (Ch d) c = (c = d)"
| "in_cls (OneOf ds) c = (c \<in> set ds)"
| "in_cls (NoneOf ds) c = (c \<notin> set ds)"
| "in_cls Space c = isspace c"
| "in_cls Dot c = True"

datatype item =
    Lit string       \<comment> \<open>a literal string\<close>
  | One cls          \<comment> \<open>one character of the class\<close>
  | Plus cls         \<comment> \<open>\<open>x+\<close>\<close>
  | PlusLazy cls     \<comment> \<open>\<open>x+?\<close>\<close>
  | Star cls         \<comment> \<open>\<open>x*\<close>\<close>
  | StarLazy cls     \<comment> \<open>\<open>x*?\<close>\<close>
  | OptLit string    \<comment> \<open>\<open>(lit)?\<close>\<close>
  | Eol              \<comment> \<open>\<open>$\<close> without \<open>re.MULTILINE\<close>\<close>

definition grow :: "char \<Rightarrow> string list option \<Rightarrow> string list option" where
  \<comment> \<open>one more character for the item at the head of the result\<close>
  "grow c r = (case r of Some (x # xs) \<Rightarrow> Some ((c # x) # xs) | _ \<Rightarrow> None)"

function rmatch :: "item list \<Rightarrow> string \<Rightarrow> string list option" where
  "rmatch [] s = Some []"
| "rmatch (Lit l # r) s =
     (if startswith s l then map_option (Cons l) (rmatch r (drop (length l) s)) else None)"
| "rmatch (One a # r) s =
     (case s of
        [] \<Rightarrow> None
      | c # cs \<Rightarrow> if in_cls a c then map_option (Cons [c]) (rmatch r cs) else None)"
| "rmatch (Plus a # r) s =
     (case s of
        [] \<Rightarrow> None
      | c # cs \<Rightarrow> if in_cls a c then grow c (rmatch (Star a # r) cs) else None)"
| "rmatch (PlusLazy a # r) s =
     (case s of
        [] \<Rightarrow> None
      | c # cs \<Rightarrow> if in_cls a c then grow c (rmatch (StarLazy a # r) cs) else None)"
| "rmatch (Star a # r) s =
     (case s of
        [] \<Rightarrow> map_option (Cons []) (rmatch r [])
      | c # cs \<Rightarrow>
          if in_cls a c then
            (case grow c (rmatch (Star a # r) cs) of
               Some m \<Rightarrow> Some m
             | None \<Rightarrow> map_option (Cons []) (rmatch r s))
          else map_option (Cons []) (rmatch r s))"
| "rmatch (StarLazy a # r) s =
     (case map_option (Cons []) (rmatch r s) of
        Some m \<Rightarrow> Some m
      | None \<Rightarrow>
          (case s of
             [] \<Rightarrow> None
           | c # cs \<Rightarrow> if in_cls a c then grow c (rmatch (StarLazy a # r) cs) else None))"
| "rmatch (OptLit l # r) s =
     (case (if startswith s l then map_option (Cons l) (rmatch r (drop (length l) s)) else None) of
        Some m \<Rightarrow> Some m
      | None \<Rightarrow> map_option (Cons []) (rmatch r s))"
| "rmatch (Eol # r) s =
     (if s = [] \<or> s = [newline] then map_option (Cons []) (rmatch r s) else None)"
  by pat_completeness auto
termination
  by (relation "measure (\<lambda>(p, s). length p + length s)") auto

fun re_search :: "item list \<Rightarrow> string \<Rightarrow> string list option" where
  \<comment> \<open>\<open>re.search\<close>: the match at the leftmost position where the pattern matches.\<close>
  "re_search p s =
     (case rmatch p s of
        Some m \<Rightarrow> Some m
      | None \<Rightarrow> (case s of [] \<Rightarrow> None | c # cs \<Rightarrow> re_search p cs))"

section \<open>\<open>sync_tasks.py\<close>: repository URLs\<close>

definition https_pattern :: "item list" where
  \<comment> \<open>\<open>github\.com[/:]([^/]+/[^/]+?)(\.git)?$\<close>\<close>
  "https_pattern =
     [Lit ''github.com'', One (OneOf ''/:''),
      Plus (NoneOf ''/''), One (Ch CHR ''/''), PlusLazy (NoneOf ''/''),
      OptLit ''.git'', Eol]"

definition ssh_pattern :: "item list" where
  \<comment> \<open>\<open>git@github\.com:([^/]+/[^/]+?)(\.git)?$\<close>\<close>
  "ssh_pattern =
     [Lit ''git@github.com:'',
      Plus (NoneOf ''/''), One (Ch CHR ''/''), PlusLazy (NoneOf ''/''),
      OptLit ''.git'', Eol]"

definition parse_github_url :: "string \<Rightarrow> string option" where
  \<comment> \<open>\<open>GitHubProjectSync._parse_github_url\<close>; \<open>group(1)\<close> is the text of the three items
      between the parentheses.\<close>
  "parse_github_url url =
     (case re_search https_pattern url of
        Some [_, _, a, b, c, _, _] \<Rightarrow> Some (rstrip_chars ''.git'' (a @ b @ c))
      | _ \<Rightarrow>
          (case re_search ssh_pattern url of
             Some [_, a, b, c, _, _] \<Rightarrow> Some (rstrip_chars ''.git'' (a @ b @ c))
           | _ \<Rightarrow> None))"

section \<open>\<open>sync_tasks.py\<close>: checklist documents\<close>

record task =
  title :: "string option"
  body :: "string option"
  labels :: "string list option"

definition title_only :: "string \<Rightarrow> task" where
  \<comment> \<open>the dict \<open>{'title': t}\<close>\<close>
  "title_only t = \<lparr>title = Some t, body = None, labels = None\<rparr>"

definition item_pattern :: "item list" where
  \<comment> \<open>\<open>^[\s]*[-*]\s+\[\s\]\s+\<close>, applied with \<open>re.match\<close> and \<open>re.sub\<close>\<close>
  "item_pattern =
     [Star Space, One (OneOf ''-*''), Plus Space,
      One (Ch CHR ''[''), One Space, One (Ch CHR '']''), Plus Space]"

definition parse_line :: "string \<Rightarrow> task option" where
  \<comment> \<open>the body of the loop of \<open>parse_markdown_tasks\<close>: \<open>re.sub\<close> removes the matched prefix\<close>
  "parse_line line =
     (case rmatch item_pattern line of
        None \<Rightarrow> None
      | Some m \<Rightarrow>
          (let t = strip (drop (length (concat m)) line)
           in if t \<noteq> [] then Some (title_only t) else None))"

fun collect_tasks :: "string list \<Rightarrow> task list \<Rightarrow> task list" where
  "collect_tasks [] tasks = tasks"
| "collect_tasks (line # rest) tasks =
     (case parse_line line of
        None \<Rightarrow> collect_tasks rest tasks
      | Some t \<Rightarrow> collect_tasks rest (tasks @ [t]))"

definition parse_markdown_tasks :: "string \<Rightarrow> task list" where
  "parse_markdown_tasks content = collect_tasks (split_on newline content) []"

section \<open>\<open>sync_tasks.py\<close>: the external tools\<close>

text \<open>
  \<open>subprocess.run\<close> is the only way the synchroniser touches the outside world.  It is a
  parameter of the model: a function from the command line and the state of the world
  \<open>'w\<close> to the outcome of the process and the state it leaves.  A process either cannot
  be started (\<open>FileNotFoundError\<close>) or exits with a return code and its standard output.
  \<open>json.loads\<close> and opening a file are parameters too; \<open>None\<close> stands for
  \<open>JSONDecodeError\<close> and for \<open>FileNotFoundError\<close>.  The diagnostics written to the
  error stream are not modelled.  Tasks and project descriptors have the types the
  annotations of the script give them.
\<close>

datatype proc = NotFound | Exited int string

datatype exn = FileNotFoundError

record project =
  number :: "int option"

datatype projects_json =
    PDict "project list option"   \<comment> \<open>a dict, with the value under \<open>'projects'\<close> if present\<close>
  | PList "project list"

record 'w env =
  run :: "string list \<Rightarrow> 'w \<Rightarrow> proc \<times> 'w"
  loads_projects :: "string \<Rightarrow> projects_json option"
  loads_tasks :: "string \<Rightarrow> task list option"
  read_file :: "string \<Rightarrow> 'w \<Rightarrow> string option"

definition check_gh_cli :: "'w env \<Rightarrow> 'w \<Rightarrow> bool \<times> 'w" where
  "check_gh_cli E w =
     (case run E [''gh'', ''auth'', ''status''] w of
        (NotFound, w1) \<Rightarrow> (False, w1)
      | (Exited rc out, w1) \<Rightarrow> (rc = 0, w1))"

definition get_origin_remote :: "'w env \<Rightarrow> 'w \<Rightarrow> string option \<times> 'w" where
  \<comment> \<open>\<open>except Exception\<close> turns a process that cannot be started into \<open>None\<close>\<close>
  "get_origin_remote E w =
     (case run E [''git'', ''remote'', ''get-url'', ''origin''] w of
        (NotFound, w1) \<Rightarrow> (None, w1)
      | (Exited rc out, w1) \<Rightarrow>
          if rc = 0 then (parse_github_url (strip out), w1)
          else
            (case run E [''git'', ''remote''] w1 of
               (NotFound, w2) \<Rightarrow> (None, w2)
             | (Exited rc2 out2, w2) \<Rightarrow>
                 if rc2 = 0 \<and> strip out2 \<noteq> [] then
                   (case split_on newline (strip out2) of
                      [] \<Rightarrow> (None, w2)
                    | remote_name # _ \<Rightarrow>
                        (case run E [''git'', ''remote'', ''get-url'', remote_name] w2 of
                           (NotFound, w3) \<Rightarrow> (None, w3)
                         | (Exited rc3 out3, w3) \<Rightarrow>
                             if rc3 = 0 then (parse_github_url (strip out3), w3)
                             else (None, w3)))
                 else (None, w2)))"

definition owner_of :: "string \<Rightarrow> string" where
  \<comment> \<open>\<open>repo.split('/')[0]\<close>\<close>
  "owner_of repo = (case split_on CHR ''/'' repo of [] \<Rightarrow> [] | x # _ \<Rightarrow> x)"

definition list_projects :: "'w env \<Rightarrow> string \<Rightarrow> 'w \<Rightarrow> exn + (project list \<times> 'w)" where
  \<comment> \<open>\<open>check=True\<close>: a nonzero return code raises \<open>CalledProcessError\<close>, caught here\<close>
  "list_projects E repo w =
     (case run E [''gh'', ''project'', ''list'', ''--owner'', owner_of repo,
                  ''--format'', ''json''] w of
        (NotFound, w1) \<Rightarrow> Inl FileNotFoundError
      | (Exited rc out, w1) \<Rightarrow>
          if rc \<noteq> 0 then Inr ([], w1)
          else
            (case loads_projects E out of
               None \<Rightarrow> Inr ([], w1)
             | Some (PDict None) \<Rightarrow> Inr ([], w1)
             | Some (PDict (Some ps)) \<Rightarrow> Inr (ps, w1)
             | Some (PList ps) \<Rightarrow> Inr (ps, w1)))"

definition get_first_project :: "'w env \<Rightarrow> string \<Rightarrow> 'w \<Rightarrow> exn + (int option \<times> 'w)" where
  "get_first_project E repo w =
     (case list_projects E repo w of
        Inl e \<Rightarrow> Inl e
      | Inr ([], w1) \<Rightarrow> Inr (None, w1)
      | Inr (p # _, w1) \<Rightarrow> Inr (number p, w1))"

definition create_issue_cmd :: "string \<Rightarrow> string \<Rightarrow> string \<Rightarrow> string list \<Rightarrow> string list" where
  "create_issue_cmd repo ttl bdy lbls =
     [''gh'', ''issue'', ''create'', ''--repo'', repo, ''--title'', ttl, ''--body'', bdy]
     @ (if lbls \<noteq> [] then [''--label'', join '','' lbls] else [])"

definition create_issue ::
  "'w env \<Rightarrow> string \<Rightarrow> string \<Rightarrow> string \<Rightarrow> string list \<Rightarrow> 'w \<Rightarrow> exn + (string option \<times> 'w)" where
  "create_issue E repo ttl bdy lbls w =
     (case run E (create_issue_cmd repo ttl bdy lbls) w of
        (NotFound, w1) \<Rightarrow> Inl FileNotFoundError
      | (Exited rc out, w1) \<Rightarrow>
          if rc \<noteq> 0 then Inr (None, w1) else Inr (Some (strip out), w1))"

definition item_add_cmd :: "int \<Rightarrow> string \<Rightarrow> string \<Rightarrow> string list" where
  "item_add_cmd pn url owner =
     [''gh'', ''project'', ''item-add'', str_int pn, ''--owner'', owner, ''--url'', url]"

definition add_issue_to_project ::
  "'w env \<Rightarrow> int \<Rightarrow> string \<Rightarrow> string \<Rightarrow> 'w \<Rightarrow> exn + (bool \<times> 'w)" where
  "add_issue_to_project E pn url owner w =
     (case run E (item_add_cmd pn url owner) w of
        (NotFound, w1) \<Rightarrow> Inl FileNotFoundError
      | (Exited rc out, w1) \<Rightarrow> Inr (rc = 0, w1))"

section \<open>\<open>sync_tasks.py\<close>: the sync engine\<close>

record synced_task =
  s_task :: task
  s_issue_url :: string

record failed_task =
  f_task :: task
  f_error :: string
  f_issue_url :: "string option"

datatype sync_result =
    Failure string
  | Success string int "synced_task list" "failed_task list"

definition truthy_str :: "string option \<Rightarrow> string option" where
  \<comment> \<open>the truth test on an optional string: \<open>None\<close> and the empty string are false\<close>
  "truthy_str x = (case x of None \<Rightarrow> None | Some s \<Rightarrow> if s = [] then None else Some s)"

definition truthy_int :: "int option \<Rightarrow> int option" where
  \<comment> \<open>the truth test on an optional integer: \<open>None\<close> and zero are false\<close>
  "truthy_int x = (case x of None \<Rightarrow> None | Some n \<Rightarrow> if n = 0 then None else Some n)"

definition no_title :: "task \<Rightarrow> failed_task" where
  "no_title t = \<lparr>f_task = t, f_error = ''No title provided'', f_issue_url = None\<rparr>"

definition not_created :: "task \<Rightarrow> failed_task" where
  "not_created t = \<lparr>f_task = t, f_error = ''Failed to create issue'', f_issue_url = None\<rparr>"

definition not_linked :: "task \<Rightarrow> string \<Rightarrow> failed_task" where
  "not_linked t url =
     \<lparr>f_task = t, f_error = ''Issue created but failed to add to project'',
      f_issue_url = Some url\<rparr>"

fun sync_loop ::
  "'w env \<Rightarrow> string \<Rightarrow> int \<Rightarrow> string \<Rightarrow> task list \<Rightarrow>
     'w \<times> synced_task list \<times> failed_task list \<Rightarrow>
     exn + ('w \<times> synced_task list \<times> failed_task list)" where
  \<comment> \<open>the \<open>for task in tasks\<close> loop of \<open>sync_tasks\<close>, on the world and the two result lists\<close>
  "sync_loop E repo pn owner [] st = Inr st"
| "sync_loop E repo pn owner (t # ts) (w, synced, failed) =
     (case truthy_str (title t) of
        None \<Rightarrow> sync_loop E repo pn owner ts (w, synced, failed @ [no_title t])
      | Some ttl \<Rightarrow>
          (case create_issue E repo ttl
                  (case body t of None \<Rightarrow> [] | Some b \<Rightarrow> b)
                  (case labels t of None \<Rightarrow> [] | Some ls \<Rightarrow> ls) w of
             Inl e \<Rightarrow> Inl e
           | Inr (issue, w1) \<Rightarrow>
               (case truthy_str issue of
                  None \<Rightarrow> sync_loop E repo pn owner ts (w1, synced, failed @ [not_created t])
                | Some issue_url \<Rightarrow>
                    (case add_issue_to_project E pn issue_url owner w1 of
                       Inl e \<Rightarrow> Inl e
                     | Inr (True, w2) \<Rightarrow>
                         sync_loop E repo pn owner ts
                           (w2, synced @ [\<lparr>s_task = t, s_issue_url = issue_url\<rparr>], failed)
                     | Inr (False, w2) \<Rightarrow>
                         sync_loop E repo pn owner ts
                           (w2, synced, failed @ [not_linked t issue_url])))))"

definition determine_repo :: "'w env \<Rightarrow> string option \<Rightarrow> 'w \<Rightarrow> string option \<times> 'w" where
  \<comment> \<open>\<open>if not self.repo: self.repo = self.get_origin_remote()\<close>\<close>
  "determine_repo E repo w =
     (case truthy_str repo of
        None \<Rightarrow> get_origin_remote E w
      | Some r \<Rightarrow> (Some r, w))"

definition determine_project ::
  "'w env \<Rightarrow> string \<Rightarrow> int option \<Rightarrow> 'w \<Rightarrow> exn + (int option \<times> 'w)" where
  \<comment> \<open>\<open>if not self.project_number: self.project_number = self.get_first_project(self.repo)\<close>\<close>
  "determine_project E r project_number w =
     (case truthy_int project_number of
        None \<Rightarrow> get_first_project E r w
      | Some n \<Rightarrow> Inr (Some n, w))"

definition sync_tasks ::
  "'w env \<Rightarrow> string option \<Rightarrow> int option \<Rightarrow> task list \<Rightarrow> 'w \<Rightarrow> exn + (sync_result \<times> 'w)" where
  \<comment> \<open>\<open>GitHubProjectSync(repo, project_number).sync_tasks(tasks)\<close>\<close>
  "sync_tasks E repo project_number tasks w =
     (case check_gh_cli E w of
        (False, w1) \<Rightarrow>
          Inr (Failure ''gh CLI not installed or not authenticated. Run: gh auth login'', w1)
      | (True, w1) \<Rightarrow>
          (case determine_repo E repo w1 of
             (repo', w2) \<Rightarrow>
               (case truthy_str repo' of
                  None \<Rightarrow>
                    Inr (Failure
                      ''Could not determine GitHub repository. Please specify --repo owner/repo'',
                      w2)
                | Some r \<Rightarrow>
                    (case determine_project E r project_number w2 of
                       Inl e \<Rightarrow> Inl e
                     | Inr (pn', w3) \<Rightarrow>
                         (case truthy_int pn' of
                            None \<Rightarrow>
                              Inr (Failure (''No projects found for '' @ r @
                                ''. Please create a project or specify --project-number''), w3)
                          | Some n \<Rightarrow>
                              (case sync_loop E r n (owner_of r) tasks (w3, [], []) of
                                 Inl e \<Rightarrow> Inl e
                               | Inr (w4, synced, failed) \<Rightarrow>
                                   Inr (Success r n synced failed, w4)))))))"

section \<open>\<open>sync_tasks.py\<close>: the command line\<close>





section \<open>\<open>build_skills.py\<close>: discovery\<close>

text \<open>
  A \<open>Path\<close> is the list of its components.  The file system is read through four
  functions: the entries of a directory, whether a path is a directory, whether it exists,
  and the text of a file.  Reading a manifest that exists is taken to succeed.
\<close>

type_synonym path = "string list"

record fs =
  listdir :: "path \<Rightarrow> string list"
  isdir :: "path \<Rightarrow> bool"
  exists_path :: "path \<Rightarrow> bool"
  read_text :: "path \<Rightarrow> string"

record skill =
  name :: string
  description :: string
  path :: path

definition path_str :: "path \<Rightarrow> string" where
  "path_str p = join ''/'' p"

definition preamble_pattern :: "item list" where
  \<comment> \<open>\<open>^---\n(.*?)\n---\<close> with \<open>re.DOTALL\<close>, applied with \<open>re.match\<close>\<close>
  "preamble_pattern = [Lit (''---'' @ [newline]), StarLazy Dot, Lit (newline # ''---'')]"

definition unquote :: "string \<Rightarrow> string" where
  \<comment> \<open>\<open>value[1:-1]\<close> when the value starts and ends with the same quote character\<close>
  "unquote v =
     (if startswith v [CHR 0x22] \<and> endswith v [CHR 0x22] then butlast (tl v)
      else if startswith v [CHR 0x27] \<and> endswith v [CHR 0x27] then butlast (tl v)
      else v)"

fun parse_yaml_lines :: "string list \<Rightarrow> (string \<rightharpoonup> string) \<Rightarrow> (string \<rightharpoonup> string)" where
  "parse_yaml_lines [] metadata = metadata"
| "parse_yaml_lines (l # ls) metadata =
     (let line = strip l
      in if line = [] \<or> startswith line ''#'' then parse_yaml_lines ls metadata
         else if CHR '':'' \<in> set line then
           (case split_once CHR '':'' line of
              (k, v) \<Rightarrow> parse_yaml_lines ls (metadata(strip k \<mapsto> unquote (strip v))))
         else parse_yaml_lines ls metadata)"

definition extract_yaml_preamble :: "fs \<Rightarrow> path \<Rightarrow> (string \<rightharpoonup> string)" where
  "extract_yaml_preamble F skill_md_path =
     (case rmatch preamble_pattern (read_text F skill_md_path) of
        Some [_, yaml_content, _] \<Rightarrow>
          parse_yaml_lines (split_on newline yaml_content) Map.empty
      | _ \<Rightarrow> Map.empty)"

definition excluded :: "string list" where
  "excluded = [''__pycache__'', ''.git'', ''venv'', ''env'']"

definition name_warning :: "path \<Rightarrow> string" where
  "name_warning skill_md =
     ''Warning: '' @ path_str skill_md @ '' missing '' @ [CHR 0x27] @ ''name'' @ [CHR 0x27]
       @ '' field''"

fun find_loop :: "fs \<Rightarrow> path \<Rightarrow> string list \<Rightarrow> skill list \<times> string list \<Rightarrow>
    skill list \<times> string list" where
  \<comment> \<open>the loop of \<open>find_skills\<close>, on the list \<open>skills\<close> and the lines written to the error
      stream\<close>
  "find_loop F root_dir [] acc = acc"
| "find_loop F root_dir (entry # rest) (skills, warnings) =
     (let skill_path = root_dir @ [entry]
      in if \<not> isdir F skill_path \<or> startswith entry ''.'' then
           find_loop F root_dir rest (skills, warnings)
         else if entry \<in> set excluded then find_loop F root_dir rest (skills, warnings)
         else
           (let skill_md = skill_path @ [''SKILL.md'']
            in if \<not> exists_path F skill_md then find_loop F root_dir rest (skills, warnings)
               else
                 (let metadata = extract_yaml_preamble F skill_md
                  in case metadata ''name'' of
                       None \<Rightarrow>
                         find_loop F root_dir rest (skills, warnings @ [name_warning skill_md])
                     | Some n \<Rightarrow>
                         find_loop F root_dir rest
                           (skills @ [\<lparr>name = n,
                                       description =
                                         (case metadata ''description'' of
                                            None \<Rightarrow> [] | Some d \<Rightarrow> d),
                                       path = skill_path\<rparr>],
                            warnings))))"

definition find_skills :: "fs \<Rightarrow> path \<Rightarrow> skill list \<times> string list" where
  \<comment> \<open>the sorted list the function returns, and the lines it writes to the error stream\<close>
  "find_skills F root_dir =
     (case find_loop F root_dir (listdir F root_dir) ([], []) of
        (skills, warnings) \<Rightarrow> (sort_key name skills, warnings))"

section \<open>\<open>build_skills.py\<close>: archives and the listing\<close>

text \<open>
  The builder changes the file system: the world \<open>'w\<close> is read through \<open>fs_of\<close> and
  changed by deleting a file, by \<open>shutil.make_archive\<close> and by writing a text file.
  \<open>make_archive\<close> is given the path of the archive and the path of the skill, from which the
  script computes its three arguments; it returns the message of the exception it raises,
  if any.  Deleting and writing are taken to succeed.
\<close>

datatype out = Stdout string | Stderr string

record 'w build_env =
  fs_of :: "'w \<Rightarrow> fs"
  unlink :: "path \<Rightarrow> 'w \<Rightarrow> 'w"
  make_archive :: "path \<Rightarrow> path \<Rightarrow> 'w \<Rightarrow> string option \<times> 'w"
  write_text :: "path \<Rightarrow> string \<Rightarrow> 'w \<Rightarrow> 'w"

definition zip_file :: "skill \<Rightarrow> string" where
  "zip_file sk = name sk @ ''.zip''"

definition remove_existing :: "'w build_env \<Rightarrow> path \<Rightarrow> 'w \<Rightarrow> 'w" where
  \<comment> \<open>\<open>if zip_name.exists(): zip_name.unlink()\<close>\<close>
  "remove_existing E zip_name w =
     (if exists_path (fs_of E w) zip_name then unlink E zip_name w else w)"

fun create_skill_zips :: "'w build_env \<Rightarrow> path \<Rightarrow> skill list \<Rightarrow> 'w \<Rightarrow> bool \<times> out list \<times> 'w" where
  "create_skill_zips E root_dir [] w = (True, [], w)"
| "create_skill_zips E root_dir (sk # rest) w =
     (let zip_name = root_dir @ [zip_file sk];
          creating = Stdout (''Creating '' @ zip_file sk @ ''...'');
          w1 = remove_existing E zip_name w
      in case make_archive E zip_name (path sk) w1 of
           (Some e, w2) \<Rightarrow>
             (False,
              [creating, Stderr (''Error creating zip for '' @ name sk @ '': '' @ e)], w2)
         | (None, w2) \<Rightarrow>
             (case create_skill_zips E root_dir rest w2 of
                (ok, outs, w3) \<Rightarrow>
                  (ok, [creating, Stdout (''  Created: '' @ zip_file sk)] @ outs, w3)))"

definition skill_lines :: "skill \<Rightarrow> string list" where
  \<comment> \<open>the lines one pass of the loop of \<open>generate_readme\<close> appends\<close>
  "skill_lines sk =
     [''### '' @ name sk @ [newline]]
     @ (if description sk \<noteq> [] then [description sk @ [newline]] else [])
     @ [''- **File**: `'' @ name sk @ ''.zip`'' @ [newline], []]"

definition generate_readme :: "path \<Rightarrow> skill list \<Rightarrow> string" where
  "generate_readme root_dir skills =
     join [newline]
       ([''# Claude Skills'' @ [newline],
         ''A collection of Claude Code skills.'' @ [newline],
         ''## Available Skills'' @ [newline]]
        @ concat (map skill_lines skills)
        @ [''## Installation'' @ [newline],
           ''Download any of the `.zip` files above to install a skill.'' @ [newline]])"

definition main_build_skills :: "'w build_env \<Rightarrow> path \<Rightarrow> 'w \<Rightarrow> nat \<times> out list \<times> 'w" where
  \<comment> \<open>\<open>main\<close> of \<open>build_skills.py\<close>: the exit status, the lines printed, the world left\<close>
  "main_build_skills E root_dir w =
     (let scanning = Stdout (''Scanning for skills in '' @ path_str root_dir @ ''...'')
      in case find_skills (fs_of E w) root_dir of
           (skills, warnings) \<Rightarrow>
             if skills = [] then
               (0, [scanning] @ map Stderr warnings
                     @ [Stdout ''No skills found. Nothing to do.''], w)
             else
               (let found = Stdout (''Found '' @ str_int (int (length skills)) @ '' skill(s): ''
                                     @ join '', '' (map name skills));
                    before = [scanning] @ map Stderr warnings
                               @ [found, Stdout (newline # ''Creating skill archives...'')]
                in case create_skill_zips E root_dir skills w of
                     (False, outs, w1) \<Rightarrow> (1, before @ outs, w1)
                   | (True, outs, w1) \<Rightarrow>
                       (0,
                        before @ outs
                          @ [Stdout (newline # ''Generating README.md...''),
                             Stdout ''  Created: README.md'',
                             Stdout (newline # ''Build complete!'')],
                        write_text E (root_dir @ [''README.md''])
                          (generate_readme root_dir skills) w1)))"

section \<open>Observing the commands\<close>

text \<open>
  \<open>logged E\<close> is the environment \<open>E\<close> with a record of every command line handed to
  \<open>subprocess.run\<close>, in order.  It answers as \<open>E\<close> does.
\<close>

definition logged :: "'w env \<Rightarrow> ('w \<times> string list list) env" where
  "logged E =
     \<lparr>run = (\<lambda>cmd (w, log). case run E cmd w of (p, w') \<Rightarrow> (p, (w', log @ [cmd]))),
      loads_projects = loads_projects E,
      loads_tasks = loads_tasks E,
      read_file = (\<lambda>f (w, log). read_file E f w)\<rparr>"

definition is_create :: "string list \<Rightarrow> bool" where
  "is_create cmd = (take 3 cmd = [''gh'', ''issue'', ''create''])"

definition task_create_cmd :: "string \<Rightarrow> task \<Rightarrow> string list" where
  \<comment> \<open>the command \<open>create_issue\<close> runs for a task with a title\<close>
  "task_create_cmd repo t =
     create_issue_cmd repo (case title t of None \<Rightarrow> [] | Some x \<Rightarrow> x)
       (case body t of None \<Rightarrow> [] | Some b \<Rightarrow> b)
       (case labels t of None \<Rightarrow> [] | Some ls \<Rightarrow> ls)"


definition is_no_title :: "failed_task \<Rightarrow> bool" where
  "is_no_title f = (f_error f = ''No title provided'')"

section \<open>A sample world\<close>

text \<open>
  A world for the examples: \<open>gh\<close> is installed and authenticated, the remote \<open>origin\<close> is
  \<open>git@github.com:acme/widgets.git\<close>, the owner has one project board, number 7, creating
  the issue titled \<open>Broken\<close> fails, linking the issue titled \<open>Unlinked\<close> fails, and the
  only file is \<open>TODO.md\<close>.
\<close>

definition demo_response :: "string list \<Rightarrow> proc" where
  "demo_response cmd =
     (if cmd = [''gh'', ''auth'', ''status''] then Exited 0 ''Logged in''
      else if cmd = [''git'', ''remote'', ''get-url'', ''origin'']
        then Exited 0 (''git@github.com:acme/widgets.git'' @ [newline])
      else if take 3 cmd = [''gh'', ''project'', ''list''] then Exited 0 ''boards''
      else if take 3 cmd = [''gh'', ''issue'', ''create''] then
        (case drop 6 cmd of
           [] \<Rightarrow> Exited 1 []
         | ttl # _ \<Rightarrow>
             if ttl = ''Broken'' then Exited 1 []
             else Exited 0 (''issues/'' @ ttl @ [newline]))
      else if take 3 cmd = [''gh'', ''project'', ''item-add''] then
        (if last cmd = ''issues/Unlinked'' then Exited 1 [] else Exited 0 [])
      else NotFound)"

definition demo :: "unit env" where
  "demo =
     \<lparr>run = (\<lambda>cmd w. (demo_response cmd, w)),
      loads_projects = (\<lambda>s. if s = ''boards'' then Some (PList [\<lparr>number = Some 7\<rparr>]) else None),
      loads_tasks = (\<lambda>s. if s = ''[]'' then Some [] else None),
      read_file = (\<lambda>f w. if f = ''TODO.md''
                           then Some (''- [ ] Buy milk'' @ [newline] @ ''- [x] Done thing'')
                           else None)\<rparr>"

section \<open>Notions the properties are stated with\<close>

text \<open>
  \<open>interleaving xs ys zs\<close>: the list \<open>xs\<close> is split into \<open>ys\<close> and \<open>zs\<close>; every position
  of \<open>xs\<close> goes to exactly one of the two, and both keep the order of \<open>xs\<close>.
\<close>

inductive interleaving :: "'a list \<Rightarrow> 'a list \<Rightarrow> 'a list \<Rightarrow> bool" where
  empty: "interleaving [] [] []"
| left: "interleaving xs ys zs \<Longrightarrow> interleaving (x # xs) (x # ys) zs"
| right: "interleaving xs ys zs \<Longrightarrow> interleaving (x # xs) ys (x # zs)"

text \<open>
  What one pass of the loop of \<open>sync_tasks\<close> does with a task: the world it leaves and
  the record it appends, to the synced list (\<open>Inl\<close>) or to the failed list (\<open>Inr\<close>).
\<close>

definition sync_step ::
  "'w env \<Rightarrow> string \<Rightarrow> int \<Rightarrow> string \<Rightarrow> task \<Rightarrow> 'w \<Rightarrow>
     exn + ('w \<times> (synced_task + failed_task))" where
  "sync_step E rp pn owner t w =
     (case truthy_str (title t) of
        None \<Rightarrow> Inr (w, Inr (no_title t))
      | Some ttl \<Rightarrow>
          (case create_issue E rp ttl
                  (case body t of None \<Rightarrow> [] | Some b \<Rightarrow> b)
                  (case labels t of None \<Rightarrow> [] | Some ls \<Rightarrow> ls) w of
             Inl e \<Rightarrow> Inl e
           | Inr (issue, w1) \<Rightarrow>
               (case truthy_str issue of
                  None \<Rightarrow> Inr (w1, Inr (not_created t))
                | Some issue_url \<Rightarrow>
                    (case add_issue_to_project E pn issue_url owner w1 of
                       Inl e \<Rightarrow> Inl e
                     | Inr (True, w2) \<Rightarrow>
                         Inr (w2, Inl \<lparr>s_task = t, s_issue_url = issue_url\<rparr>)
                     | Inr (False, w2) \<Rightarrow> Inr (w2, Inr (not_linked t issue_url))))))"







text \<open>
  The unchecked list item, in the words of the specification: optional indentation, a
  bullet \<open>-\<close> or \<open>*\<close>, white space, an opening bracket, one white-space character, a
  closing bracket, white space, and the text.  \<open>extracted lines tasks\<close>: the tasks are
  exactly the trimmed, non-empty texts of the unchecked items among the lines, in order.
\<close>

definition whitespace :: "string \<Rightarrow> bool" where
  "whitespace s = list_all isspace s"

definition unchecked_item :: "string \<Rightarrow> string \<Rightarrow> bool" where
  "unchecked_item line text =
     (\<exists>indent bullet gap1 inner gap2.
        line = indent @ [bullet] @ gap1 @ ''['' @ [inner] @ '']'' @ gap2 @ text
        \<and> whitespace indent \<and> (bullet = CHR ''-'' \<or> bullet = CHR ''*'')
        \<and> gap1 \<noteq> [] \<and> whitespace gap1 \<and> isspace inner
        \<and> gap2 \<noteq> [] \<and> whitespace gap2)"

inductive extracted :: "string list \<Rightarrow> task list \<Rightarrow> bool" where
  none: "extracted [] []"
| item: "unchecked_item line text \<Longrightarrow> strip text \<noteq> [] \<Longrightarrow> extracted lines tasks \<Longrightarrow>
         extracted (line # lines) (title_only (strip text) # tasks)"
| skip: "(\<And>text. unchecked_item line text \<Longrightarrow> strip text = []) \<Longrightarrow> extracted lines tasks \<Longrightarrow>
         extracted (line # lines) tasks"

text \<open>
  The directories \<open>find_skills\<close> keeps, the record it makes of one, and two file systems
  that agree on everything at most one level below the root: the entries of the root,
  which of them are directories, and the manifest directly inside each.
\<close>

definition eligible :: "fs \<Rightarrow> path \<Rightarrow> string \<Rightarrow> bool" where
  "eligible F root_dir entry =
     (isdir F (root_dir @ [entry]) \<and> \<not> startswith entry ''.'' \<and> entry \<notin> set excluded
      \<and> exists_path F (root_dir @ [entry, ''SKILL.md'']))"

definition manifest :: "fs \<Rightarrow> path \<Rightarrow> string \<Rightarrow> (string \<rightharpoonup> string)" where
  "manifest F root_dir entry = extract_yaml_preamble F (root_dir @ [entry, ''SKILL.md''])"

definition has_name :: "fs \<Rightarrow> path \<Rightarrow> string \<Rightarrow> bool" where
  "has_name F root_dir entry = (manifest F root_dir entry ''name'' \<noteq> None)"

definition skill_of :: "fs \<Rightarrow> path \<Rightarrow> string \<Rightarrow> skill" where
  "skill_of F root_dir entry =
     \<lparr>name = (case manifest F root_dir entry ''name'' of None \<Rightarrow> [] | Some n \<Rightarrow> n),
      description = (case manifest F root_dir entry ''description'' of None \<Rightarrow> [] | Some d \<Rightarrow> d),
      path = root_dir @ [entry]\<rparr>"

definition same_top_level :: "fs \<Rightarrow> fs \<Rightarrow> path \<Rightarrow> bool" where
  "same_top_level F F' root_dir =
     (listdir F' root_dir = listdir F root_dir
      \<and> (\<forall>entry \<in> set (listdir F root_dir).
            isdir F' (root_dir @ [entry]) = isdir F (root_dir @ [entry])
            \<and> exists_path F' (root_dir @ [entry, ''SKILL.md''])
                = exists_path F (root_dir @ [entry, ''SKILL.md''])
            \<and> read_text F' (root_dir @ [entry, ''SKILL.md''])
                = read_text F (root_dir @ [entry, ''SKILL.md''])))"


section \<open>A sample skill tree\<close>

text \<open>
  The root \<open>r\<close> holds the skill directories \<open>zeta\<close>, \<open>broken\<close> and \<open>alpha\<close> (named
  \<open>zeta-skill\<close>, \<open>beta\<close> and \<open>alpha\<close> by their manifests), a hidden directory and a
  \<open>venv\<close> with manifests, a directory without a manifest, a directory whose manifest has
  no name, and a plain file.  The root \<open>s\<close> holds \<open>alpha\<close> only.  The world is the list
  of the files written so far; archiving the directory \<open>broken\<close> fails.
\<close>

definition demo_manifest :: "string \<Rightarrow> string" where
  "demo_manifest entry =
     (if entry = ''alpha'' then
        ''---'' @ [newline] @ ''name: alpha'' @ [newline] @ ''description: ''
          @ [CHR 0x22] @ ''First'' @ [CHR 0x22] @ [newline] @ ''---'' @ [newline] @ ''# Alpha''
      else if entry = ''broken'' then
        ''---'' @ [newline] @ ''name: beta'' @ [newline] @ ''---''
      else if entry = ''zeta'' then
        ''---'' @ [newline] @ ''# a comment'' @ [newline] @ ''description: ''
          @ [CHR 0x27] @ ''Last'' @ [CHR 0x27] @ [newline] @ ''  name :  zeta-skill  ''
          @ [newline] @ ''---'' @ [newline]
      else if entry = ''notes'' then
        ''---'' @ [newline] @ ''description: no name here'' @ [newline] @ ''---''
      else ''---'' @ [newline] @ ''name: other'' @ [newline] @ ''---'')"

definition demo_fs :: "path list \<Rightarrow> fs" where
  "demo_fs written =
     \<lparr>listdir = (\<lambda>p. if p = [''r'']
                       then [''zeta'', ''.hidden'', ''venv'', ''plain'', ''notes'', ''broken'',
                             ''alpha'', ''README.md'']
                       else if p = [''s''] then [''alpha''] else []),
      isdir = (\<lambda>p. length p = 2 \<and> last p \<noteq> ''README.md''),
      exists_path = (\<lambda>p. p \<in> set written
                          \<or> (length p = 3 \<and> last p = ''SKILL.md'' \<and> p ! 1 \<noteq> ''plain'')),
      read_text = (\<lambda>p. demo_manifest (p ! 1))\<rparr>"

definition demo_build :: "(path list) build_env" where
  "demo_build =
     \<lparr>fs_of = demo_fs,
      unlink = (\<lambda>p w. removeAll p w),
      make_archive = (\<lambda>z p w. if last p = ''broken'' then (Some ''disk full'', w)
                               else (None, w @ [z])),
      write_text = (\<lambda>p t w. w @ [p])\<rparr>"

section \<open>Properties\<close>

subsection \<open>Repository URLs\<close>

lemma parse_github_url_widgets:
  "parse_github_url ''https://github.com/acme/widgets.git'' = Some ''acme/widgets''"
  "parse_github_url ''git@github.com:acme/widgets.git'' = Some ''acme/widgets''"
  "parse_github_url ''https://github.com/acme/widgets'' = Some ''acme/widgets''"
  "parse_github_url ''git@github.com:acme/widgets'' = Some ''acme/widgets''"
  by code_simp+

text \<open>
  C1.  The parser is meant to return \<open>owner/repo\<close> with an optional \<open>.git\<close> suffix removed.
  The pattern already leaves the suffix out of the group; the call \<open>rstrip('.git')\<close> that
  follows removes every trailing character among \<open>.\<close>, \<open>g\<close>, \<open>i\<close> and \<open>t\<close>.  For the
  repository \<open>digit\<close> of \<open>acme\<close> the parser returns \<open>acme/d\<close>, in the HTTPS and in the SSH
  form, and for the repository \<open>git\<close> of \<open>git\<close> it returns \<open>git/\<close>.
\<close>

theorem parse_github_url_strips_letters:
  "parse_github_url ''https://github.com/acme/digit.git'' = Some ''acme/d''
   \<and> parse_github_url ''git@github.com:acme/digit'' = Some ''acme/d''
   \<and> parse_github_url ''https://github.com/git/git'' = Some ''git/''"
  by code_simp

subsection \<open>Absent arguments\<close>

lemma truthy_int_zero: "truthy_int (Some 0) = truthy_int None"
  by (simp add: truthy_int_def)

lemma truthy_str_empty: "truthy_str (Some []) = truthy_str None"
  by (simp add: truthy_str_def)

text \<open>
  C9.  A project number of 0 and an empty repository string are treated as absent: the
  synchroniser behaves on them exactly as it does when the argument is missing, so with
  project number 0 it asks for the first project board of the owner.  In the sample world,
  whose only board has number 7, the run with project number 0 lists the boards and links
  the issue to board 7.
\<close>

theorem zero_project_number_is_absent:
  "sync_tasks E r (Some 0) tasks w = sync_tasks E r None tasks w
   \<and> sync_tasks E (Some []) pn tasks w = sync_tasks E None pn tasks w
   \<and> determine_project E r' (Some 0) w = get_first_project E r' w
   \<and> sync_tasks (logged demo) (Some ''acme/widgets'') (Some 0) [title_only ''A''] ((), []) =
       Inr (Success ''acme/widgets'' 7
              [\<lparr>s_task = title_only ''A'', s_issue_url = ''issues/A''\<rparr>] [],
            (), [[''gh'', ''auth'', ''status''],
                 [''gh'', ''project'', ''list'', ''--owner'', ''acme'', ''--format'', ''json''],
                 [''gh'', ''issue'', ''create'', ''--repo'', ''acme/widgets'', ''--title'', ''A'',
                  ''--body'', []],
                 [''gh'', ''project'', ''item-add'', ''7'', ''--owner'', ''acme'', ''--url'',
                  ''issues/A'']])"
proof -
  have a: "sync_tasks E r (Some 0) tasks w = sync_tasks E r None tasks w"
    unfolding sync_tasks_def determine_project_def truthy_int_zero by (rule refl)
  have b: "sync_tasks E (Some []) pn tasks w = sync_tasks E None pn tasks w"
    unfolding sync_tasks_def determine_repo_def truthy_str_empty by (rule refl)
  have c: "determine_project E r' (Some 0) w = get_first_project E r' w"
    by (simp add: determine_project_def truthy_int_def)
  have d: "sync_tasks (logged demo) (Some ''acme/widgets'') (Some 0) [title_only ''A''] ((), []) =
       Inr (Success ''acme/widgets'' 7
              [\<lparr>s_task = title_only ''A'', s_issue_url = ''issues/A''\<rparr>] [],
            (), [[''gh'', ''auth'', ''status''],
                 [''gh'', ''project'', ''list'', ''--owner'', ''acme'', ''--format'', ''json''],
                 [''gh'', ''issue'', ''create'', ''--repo'', ''acme/widgets'', ''--title'', ''A'',
                  ''--body'', []],
                 [''gh'', ''project'', ''item-add'', ''7'', ''--owner'', ''acme'', ''--url'',
                  ''issues/A'']])"
    by code_simp
  from a b c d show ?thesis by blast
qed

theorem zero_project_number_is_absent_witness:
  "sync_tasks demo (Some ''acme/widgets'') (Some 0) [title_only ''A''] () =
   sync_tasks demo (Some ''acme/widgets'') None [title_only ''A''] ()"
  using zero_project_number_is_absent [of demo "Some ''acme/widgets''" "[title_only ''A'']" "()"]
  by blast

subsection \<open>The listing\<close>

lemma skill_lines_names:
  "map name s1 = map name s2 \<Longrightarrow> map description s1 = map description s2 \<Longrightarrow>
   concat (map skill_lines s1) = concat (map skill_lines s2)"
proof (induction s1 arbitrary: s2)
  case Nil
  then show ?case by simp
next
  case (Cons a s1)
  then obtain b s2' where s2: "s2 = b # s2'" by (cases s2) auto
  with Cons.prems have "name a = name b" "description a = description b"
    "map name s1 = map name s2'" "map description s1 = map description s2'" by auto
  with Cons.IH[of s2'] s2 show ?case by (simp add: skill_lines_def)
qed

text \<open>
  C8.  The listing is a function of the sequence of skills alone: \<open>generate_readme\<close> reads
  no file and changes nothing (it takes no world and returns none), two runs on the same
  sequence give the same document whatever the root directory, and the document depends
  only on the names and the descriptions of the skills.
\<close>

theorem generate_readme_pure:
  "(skills1 = skills2 \<longrightarrow> generate_readme root1 skills1 = generate_readme root2 skills2)
   \<and> (map name skills1 = map name skills2 \<and> map description skills1 = map description skills2
        \<longrightarrow> generate_readme root1 skills1 = generate_readme root2 skills2)"
  by (auto simp: generate_readme_def dest: skill_lines_names)

theorem generate_readme_pure_witness:
  "generate_readme [''a''] [\<lparr>name = ''x'', description = ''d'', path = [''a'', ''x'']\<rparr>] =
   generate_readme [''b''] [\<lparr>name = ''x'', description = ''d'', path = [''b'', ''y'']\<rparr>]"
  using generate_readme_pure [of "[\<lparr>name = ''x'', description = ''d'', path = [''a'', ''x'']\<rparr>]"
      "[\<lparr>name = ''x'', description = ''d'', path = [''b'', ''y'']\<rparr>]" "[''a'']" "[''b'']"]
  by simp

subsection \<open>The loop over the tasks\<close>

lemma sync_loop_step:
  "sync_loop E rp pn ow (t # ts) (w, s, f) =
     (case sync_step E rp pn ow t w of
        Inl e \<Rightarrow> Inl e
      | Inr (w1, Inl x) \<Rightarrow> sync_loop E rp pn ow ts (w1, s @ [x], f)
      | Inr (w1, Inr y) \<Rightarrow> sync_loop E rp pn ow ts (w1, s, f @ [y]))"
  by (simp add: sync_step_def split: option.splits sum.splits prod.splits bool.splits)

lemma sync_step_task:
  "sync_step E rp pn ow t w = Inr (w1, r) \<Longrightarrow>
   (case r of Inl x \<Rightarrow> s_task x = t | Inr y \<Rightarrow> f_task y = t)"
  by (auto simp: sync_step_def no_title_def not_created_def not_linked_def
      split: option.splits sum.splits prod.splits bool.splits)

lemma sync_loop_interleaving:
  "sync_loop E rp pn ow ts (w, s0, f0) = Inr (w', s, f) \<Longrightarrow>
   \<exists>s1 f1. s = s0 @ s1 \<and> f = f0 @ f1 \<and> interleaving ts (map s_task s1) (map f_task f1)"
proof (induction ts arbitrary: w s0 f0)
  case Nil
  then show ?case by (auto intro: interleaving.empty)
next
  case (Cons t ts)
  from Cons.prems have h: "(case sync_step E rp pn ow t w of
        Inl e \<Rightarrow> Inl e
      | Inr (w1, Inl x) \<Rightarrow> sync_loop E rp pn ow ts (w1, s0 @ [x], f0)
      | Inr (w1, Inr y) \<Rightarrow> sync_loop E rp pn ow ts (w1, s0, f0 @ [y])) = Inr (w', s, f)"
    by (simp only: sync_loop_step)
  then obtain w1 r where step: "sync_step E rp pn ow t w = Inr (w1, r)"
    by (cases "sync_step E rp pn ow t w") auto
  show ?case
  proof (cases r)
    case (Inl x)
    with h step have "sync_loop E rp pn ow ts (w1, s0 @ [x], f0) = Inr (w', s, f)"
      by simp
    from Cons.IH[OF this] obtain s1 f1 where
      "s = (s0 @ [x]) @ s1" "f = f0 @ f1" "interleaving ts (map s_task s1) (map f_task f1)"
      by blast
    moreover have "s_task x = t" using sync_step_task[OF step] Inl by simp
    ultimately have "s = s0 @ (x # s1) \<and> f = f0 @ f1
        \<and> interleaving (t # ts) (map s_task (x # s1)) (map f_task f1)"
      by (auto intro: interleaving.left)
    then show ?thesis by blast
  next
    case (Inr y)
    with h step have "sync_loop E rp pn ow ts (w1, s0, f0 @ [y]) = Inr (w', s, f)"
      by simp
    from Cons.IH[OF this] obtain s1 f1 where
      "s = s0 @ s1" "f = (f0 @ [y]) @ f1" "interleaving ts (map s_task s1) (map f_task f1)"
      by blast
    moreover have "f_task y = t" using sync_step_task[OF step] Inr by simp
    ultimately have "s = s0 @ s1 \<and> f = f0 @ (y # f1)
        \<and> interleaving (t # ts) (map s_task s1) (map f_task (y # f1))"
      by (auto intro: interleaving.right)
    then show ?thesis by blast
  qed
qed






subsection \<open>Tasks without a title, issues that cannot be linked\<close>

lemma run_logged:
  "run (logged E) cmd (w, log) = (case run E cmd w of (p, w') \<Rightarrow> (p, (w', log @ [cmd])))"
  by (simp add: logged_def)

lemma create_issue_logged:
  "create_issue (logged E) rp ttl b l (w, log) =
     (case create_issue E rp ttl b l w of
        Inl e \<Rightarrow> Inl e
      | Inr (r, w1) \<Rightarrow> Inr (r, (w1, log @ [create_issue_cmd rp ttl b l])))"
  by (simp add: create_issue_def run_logged split: prod.splits proc.splits)

lemma add_issue_to_project_logged:
  "add_issue_to_project (logged E) pn url ow (w, log) =
     (case add_issue_to_project E pn url ow w of
        Inl e \<Rightarrow> Inl e
      | Inr (r, w1) \<Rightarrow> Inr (r, (w1, log @ [item_add_cmd pn url ow])))"
  by (simp add: add_issue_to_project_def run_logged split: prod.splits proc.splits)

lemma is_create_cmds [simp]:
  "is_create (create_issue_cmd rp ttl b l)"
  "\<not> is_create (item_add_cmd pn url ow)"
  by (simp_all add: is_create_def create_issue_cmd_def item_add_cmd_def)

lemma is_no_title_simps [simp]:
  "is_no_title (no_title t)"
  "\<not> is_no_title (not_created t)"
  "\<not> is_no_title (not_linked t url)"
  by (simp_all add: is_no_title_def no_title_def not_created_def not_linked_def)

lemma truthy_str_Some: "truthy_str x = Some y \<longleftrightarrow> x = Some y \<and> y \<noteq> []"
  by (auto simp: truthy_str_def split: option.splits)











text \<open>
  C2.  When the issue of a task is created (the command exits with 0 and prints a non-empty
  reference) and adding it to the project fails, the loop appends to the failed list the
  record of the task with the reason \<open>Issue created but failed to add to project\<close> and
  the reference of the issue, and goes on with the remaining tasks from the world the failed
  command left; the record is in the final failed list.  The commands run for that task are
  \<open>gh issue create\<close> and \<open>gh project item-add\<close> and no other: nothing deletes the
  issue.
\<close>

theorem link_failure_is_recorded:
  assumes "truthy_str (title t) = Some ttl"
    and "create_issue E rp ttl (case body t of None \<Rightarrow> [] | Some b \<Rightarrow> b)
           (case labels t of None \<Rightarrow> [] | Some ls \<Rightarrow> ls) w = Inr (Some url, w1)"
    and "url \<noteq> []"
    and "add_issue_to_project E pn url ow w1 = Inr (False, w2)"
  shows "sync_loop E rp pn ow (t # ts) (w, synced, failed) =
         sync_loop E rp pn ow ts
           (w2, synced,
            failed @ [\<lparr>f_task = t, f_error = ''Issue created but failed to add to project'',
                       f_issue_url = Some url\<rparr>])
       \<and> (\<forall>w' s' f'. sync_loop E rp pn ow (t # ts) (w, synced, failed) = Inr (w', s', f') \<longrightarrow>
            \<lparr>f_task = t, f_error = ''Issue created but failed to add to project'',
             f_issue_url = Some url\<rparr> \<in> set f')
       \<and> sync_loop (logged E) rp pn ow [t] ((w, log), synced, failed) =
           Inr ((w2, log @ [task_create_cmd rp t, item_add_cmd pn url ow]), synced,
                failed @ [\<lparr>f_task = t,
                            f_error = ''Issue created but failed to add to project'',
                            f_issue_url = Some url\<rparr>])"
proof -
  let ?rec = "\<lparr>f_task = t, f_error = ''Issue created but failed to add to project'',
               f_issue_url = Some url\<rparr>"
  have ts: "truthy_str (Some url) = Some url" using assms(3) by (simp add: truthy_str_def)
  have eq: "sync_loop E rp pn ow (t # ts) (w, synced, failed) =
         sync_loop E rp pn ow ts (w2, synced, failed @ [?rec])"
    using assms ts by (simp add: not_linked_def)
  have mem: "?rec \<in> set f'"
    if "sync_loop E rp pn ow (t # ts) (w, synced, failed) = Inr (w', s', f')" for w' s' f'
  proof -
    from that eq have "sync_loop E rp pn ow ts (w2, synced, failed @ [?rec]) = Inr (w', s', f')"
      by simp
    from sync_loop_interleaving[OF this] show ?thesis by auto
  qed
  from assms(1) have ttl: "title t = Some ttl" by (simp add: truthy_str_Some)
  have lg: "sync_loop (logged E) rp pn ow [t] ((w, log), synced, failed) =
           Inr ((w2, log @ [task_create_cmd rp t, item_add_cmd pn url ow]), synced,
                failed @ [?rec])"
    using assms ts ttl
    by (simp add: create_issue_logged add_issue_to_project_logged not_linked_def
        task_create_cmd_def)
  from eq mem lg show ?thesis by blast
qed

lemma demo_unlinked:
  "truthy_str (title (title_only ''Unlinked'')) = Some ''Unlinked''"
  "create_issue demo ''acme/widgets'' ''Unlinked''
     (case body (title_only ''Unlinked'') of None \<Rightarrow> [] | Some b \<Rightarrow> b)
     (case labels (title_only ''Unlinked'') of None \<Rightarrow> [] | Some ls \<Rightarrow> ls) ()
   = Inr (Some ''issues/Unlinked'', ())"
  "add_issue_to_project demo 7 ''issues/Unlinked'' ''acme'' () = Inr (False, ())"
  by code_simp+

theorem link_failure_is_recorded_witness:
  "sync_loop demo ''acme/widgets'' 7 ''acme'' [title_only ''Unlinked'', title_only ''A'']
     ((), [], []) =
   Inr ((), [\<lparr>s_task = title_only ''A'', s_issue_url = ''issues/A''\<rparr>],
        [\<lparr>f_task = title_only ''Unlinked'',
          f_error = ''Issue created but failed to add to project'',
          f_issue_url = Some ''issues/Unlinked''\<rparr>])"
proof -
  have rest: "sync_loop demo ''acme/widgets'' 7 ''acme'' [title_only ''A'']
     ((), [], [] @ [\<lparr>f_task = title_only ''Unlinked'',
          f_error = ''Issue created but failed to add to project'',
          f_issue_url = Some ''issues/Unlinked''\<rparr>]) =
   Inr ((), [\<lparr>s_task = title_only ''A'', s_issue_url = ''issues/A''\<rparr>],
        [\<lparr>f_task = title_only ''Unlinked'',
          f_error = ''Issue created but failed to add to project'',
          f_issue_url = Some ''issues/Unlinked''\<rparr>])"
    by code_simp
  have ne: "''issues/Unlinked'' \<noteq> []" by simp
  from link_failure_is_recorded[OF demo_unlinked(1) demo_unlinked(2) ne demo_unlinked(3),
      of "[title_only ''A'']" "[]" "[]" "[]"] rest
  show ?thesis by simp
qed

subsection \<open>The exit status of the synchroniser\<close>




lemma sync_result_cases:
  "(\<exists>e. sync_tasks E rp pn tasks w = Inl e)
   \<or> (\<exists>msg w'. sync_tasks E rp pn tasks w = Inr (Failure msg, w'))
   \<or> (\<exists>r n s f w'. sync_tasks E rp pn tasks w = Inr (Success r n s f, w'))"
proof (cases "sync_tasks E rp pn tasks w")
  case (Inl e)
  then show ?thesis by blast
next
  case (Inr p)
  then show ?thesis by (cases p; cases "fst p") auto
qed






subsection \<open>Archives\<close>








lemma demo_build_exits:
  "fst (main_build_skills demo_build [''r''] []) = 1"
  "fst (main_build_skills demo_build [''s''] []) = 0"
  "fst (main_build_skills demo_build [''e''] []) = 0"
  by code_simp+

subsection \<open>Discovery\<close>

lemma find_loop_eq:
  "find_loop F root_dir es (sk, wn) =
     (sk @ map (skill_of F root_dir)
             (filter (\<lambda>e. eligible F root_dir e \<and> has_name F root_dir e) es),
      wn @ map (\<lambda>e. name_warning (root_dir @ [e, ''SKILL.md'']))
             (filter (\<lambda>e. eligible F root_dir e \<and> \<not> has_name F root_dir e) es))"
proof (induction es arbitrary: sk wn)
  case Nil
  then show ?case by simp
next
  case (Cons e es)
  show ?case
  proof (cases "eligible F root_dir e")
    case False
    then show ?thesis using Cons.IH by (auto simp: eligible_def Let_def)
  next
    case True
    then show ?thesis using Cons.IH
      by (auto simp: eligible_def Let_def has_name_def manifest_def skill_of_def
          split: option.splits)
  qed
qed

lemma find_skills_eq:
  "find_skills F root_dir =
     (sort_key name (map (skill_of F root_dir)
        (filter (\<lambda>e. eligible F root_dir e \<and> has_name F root_dir e) (listdir F root_dir))),
      map (\<lambda>e. name_warning (root_dir @ [e, ''SKILL.md'']))
        (filter (\<lambda>e. eligible F root_dir e \<and> \<not> has_name F root_dir e) (listdir F root_dir)))"
  by (simp add: find_skills_def find_loop_eq)

lemma same_top_level_entry:
  assumes "same_top_level F F' root_dir" and "e \<in> set (listdir F root_dir)"
  shows "eligible F' root_dir e = eligible F root_dir e"
    and "manifest F' root_dir e = manifest F root_dir e"
    and "has_name F' root_dir e = has_name F root_dir e"
    and "skill_of F' root_dir e = skill_of F root_dir e"
  using assms
  by (simp_all add: same_top_level_def eligible_def manifest_def has_name_def skill_of_def
      extract_yaml_preamble_def)

lemma find_skills_one_level:
  assumes "same_top_level F F' root_dir"
  shows "find_skills F' root_dir = find_skills F root_dir"
proof -
  have l: "listdir F' root_dir = listdir F root_dir"
    using assms by (simp add: same_top_level_def)
  have f1: "filter (\<lambda>e. eligible F' root_dir e \<and> has_name F' root_dir e) (listdir F root_dir)
      = filter (\<lambda>e. eligible F root_dir e \<and> has_name F root_dir e) (listdir F root_dir)"
    by (rule filter_cong) (simp_all add: same_top_level_entry[OF assms])
  have f2: "filter (\<lambda>e. eligible F' root_dir e \<and> \<not> has_name F' root_dir e) (listdir F root_dir)
      = filter (\<lambda>e. eligible F root_dir e \<and> \<not> has_name F root_dir e) (listdir F root_dir)"
    by (rule filter_cong) (simp_all add: same_top_level_entry[OF assms])
  have m: "map (skill_of F' root_dir)
        (filter (\<lambda>e. eligible F root_dir e \<and> has_name F root_dir e) (listdir F root_dir))
      = map (skill_of F root_dir)
        (filter (\<lambda>e. eligible F root_dir e \<and> has_name F root_dir e) (listdir F root_dir))"
    by (rule map_cong) (simp_all add: same_top_level_entry[OF assms])
  show ?thesis by (simp add: find_skills_eq l f1 f2 m)
qed

text \<open>
  C6.  The records \<open>find_skills\<close> returns are sorted by name; they are, one for one, the
  records of the entries of the root that are directories, do not start with a dot, are not
  in the exclusion list, contain \<open>SKILL.md\<close> and have a \<open>name\<close> in its metadata (the
  name of the record is that name); the warnings are those of the entries that pass the
  first four tests and have no \<open>name\<close>, and the other entries are processed all the
  same; and the result depends on the file system only through the entries of the root,
  whether each is a directory, and the manifest directly inside it: nothing deeper is read.
\<close>

theorem find_skills_discovers:
  "sorted (map name (fst (find_skills F root_dir)))
   \<and> mset (fst (find_skills F root_dir)) =
       mset (map (skill_of F root_dir)
         (filter (\<lambda>e. eligible F root_dir e \<and> has_name F root_dir e) (listdir F root_dir)))
   \<and> snd (find_skills F root_dir) =
       map (\<lambda>e. name_warning (root_dir @ [e, ''SKILL.md'']))
         (filter (\<lambda>e. eligible F root_dir e \<and> \<not> has_name F root_dir e) (listdir F root_dir))
   \<and> (\<forall>e \<in> set (listdir F root_dir). eligible F root_dir e \<and> has_name F root_dir e \<longrightarrow>
         manifest F root_dir e ''name'' = Some (name (skill_of F root_dir e)))
   \<and> (same_top_level F F' root_dir \<longrightarrow> find_skills F' root_dir = find_skills F root_dir)"
  by (auto simp: find_skills_eq has_name_def skill_of_def dest: find_skills_one_level)

lemma demo_found:
  "find_skills (demo_fs []) [''r''] =
     ([\<lparr>name = ''alpha'', description = ''First'', path = [''r'', ''alpha'']\<rparr>,
       \<lparr>name = ''beta'', description = [], path = [''r'', ''broken'']\<rparr>,
       \<lparr>name = ''zeta-skill'', description = ''Last'', path = [''r'', ''zeta'']\<rparr>],
      [''Warning: r/notes/SKILL.md missing '' @ [CHR 0x27] @ ''name'' @ [CHR 0x27] @ '' field''])"
  by code_simp

lemma demo_same: "same_top_level (demo_fs []) (demo_fs [[''r'', ''alpha'', ''deep'', ''SKILL.md'']]) [''r'']"
  by (simp add: same_top_level_def demo_fs_def)

theorem find_skills_discovers_witness:
  "sorted [''alpha'', ''beta'', ''zeta-skill'']
   \<and> find_skills (demo_fs [[''r'', ''alpha'', ''deep'', ''SKILL.md'']]) [''r''] =
       ([\<lparr>name = ''alpha'', description = ''First'', path = [''r'', ''alpha'']\<rparr>,
         \<lparr>name = ''beta'', description = [], path = [''r'', ''broken'']\<rparr>,
         \<lparr>name = ''zeta-skill'', description = ''Last'', path = [''r'', ''zeta'']\<rparr>],
        [''Warning: r/notes/SKILL.md missing '' @ [CHR 0x27] @ ''name'' @ [CHR 0x27] @ '' field''])"
  using find_skills_discovers[of "demo_fs []" "[''r'']" "demo_fs [[''r'', ''alpha'', ''deep'', ''SKILL.md'']]"]
    demo_same
  unfolding demo_found by simp

subsection \<open>Checklist documents\<close>

declare rmatch.simps [simp del]

lemma grow_map: "grow c (map_option (Cons x) r) = map_option (Cons (c # x)) r"
  by (cases r) (simp_all add: grow_def)

lemma rmatch_One:
  "rmatch (One b # r) s =
     (case s of [] \<Rightarrow> None
      | c # cs \<Rightarrow> if in_cls b c then map_option (Cons [c]) (rmatch r cs) else None)"
  by (simp add: rmatch.simps)

lemma star_then_one:
  assumes "\<forall>c. in_cls a c \<longrightarrow> \<not> in_cls b c"
  shows "rmatch (Star a # One b # r) s =
         map_option (Cons (takeWhile (in_cls a) s)) (rmatch (One b # r) (dropWhile (in_cls a) s))"
proof (induction s)
  case Nil
  then show ?case by (simp add: rmatch.simps(6))
next
  case (Cons c cs)
  show ?case
  proof (cases "in_cls a c")
    case False
    then show ?thesis by (simp add: rmatch.simps(6))
  next
    case True
    then have nb: "rmatch (One b # r) (c # cs) = None" using assms by (simp add: rmatch_One)
    have "rmatch (Star a # One b # r) (c # cs) =
          (case grow c (rmatch (Star a # One b # r) cs) of
             Some m \<Rightarrow> Some m
           | None \<Rightarrow> map_option (Cons []) (rmatch (One b # r) (c # cs)))"
      using True by (simp add: rmatch.simps(6))
    also have "\<dots> = grow c (rmatch (Star a # One b # r) cs)"
      unfolding nb by (simp split: option.splits)
    also have "\<dots> = map_option (Cons (c # takeWhile (in_cls a) cs))
                        (rmatch (One b # r) (dropWhile (in_cls a) cs))"
      unfolding Cons.IH by (rule grow_map)
    finally show ?thesis using True by simp
  qed
qed

lemma star_end: "rmatch [Star a] s = Some [takeWhile (in_cls a) s]"
  by (induction s) (simp_all add: grow_def rmatch.simps(1,6))

lemma plus_then_one:
  assumes "\<forall>c. in_cls a c \<longrightarrow> \<not> in_cls b c"
  shows "rmatch (Plus a # One b # r) s =
         (if takeWhile (in_cls a) s = [] then None
          else map_option (Cons (takeWhile (in_cls a) s))
                 (rmatch (One b # r) (dropWhile (in_cls a) s)))"
proof (cases s)
  case Nil
  then show ?thesis by (simp add: rmatch.simps(4))
next
  case (Cons c cs)
  then show ?thesis by (simp add: rmatch.simps(4) star_then_one[OF assms] grow_map)
qed

lemma plus_end:
  "rmatch [Plus a] s =
     (if takeWhile (in_cls a) s = [] then None else Some [takeWhile (in_cls a) s])"
  by (cases s) (simp_all add: rmatch.simps(4) star_end grow_def)

lemma not_space [simp]:
  "\<not> isspace CHR ''-''" "\<not> isspace CHR ''*''" "\<not> isspace CHR ''[''"
  by (simp_all add: isspace_def)

lemma dropWhile_head: "dropWhile P xs = y # ys \<Longrightarrow> y \<in> set xs \<and> \<not> P y"
  by (metis dropWhile_eq_Cons_conv in_set_conv_decomp)

lemma item_pattern_match:
  "rmatch item_pattern line = Some m \<longleftrightarrow>
     (\<exists>b r2 w r4.
        dropWhile isspace line = b # r2 \<and> (b = CHR ''-'' \<or> b = CHR ''*'')
        \<and> takeWhile isspace r2 \<noteq> []
        \<and> dropWhile isspace r2 = CHR ''['' # w # CHR '']'' # r4 \<and> isspace w
        \<and> takeWhile isspace r4 \<noteq> []
        \<and> m = [takeWhile isspace line, [b], takeWhile isspace r2, ''['', [w], '']'',
                takeWhile isspace r4])"
proof -
  have d1: "\<forall>c. in_cls Space c \<longrightarrow> \<not> in_cls (OneOf ''-*'') c" by auto
  have d2: "\<forall>c. in_cls Space c \<longrightarrow> \<not> in_cls (Ch CHR ''['') c" by auto
  have sp: "in_cls Space = isspace" by (rule ext) simp
  show ?thesis
    unfolding item_pattern_def
    by (simp add: star_then_one[OF d1] plus_then_one[OF d2] plus_end sp rmatch_One
          split: list.splits if_splits)
       (auto dest: dropWhile_head)
qed


lemma whitespace_takeWhile: "whitespace (takeWhile isspace s)"
  by (induction s) (simp_all add: whitespace_def)

lemma whitespace_spans:
  assumes "whitespace xs"
  shows "takeWhile isspace (xs @ ys) = xs @ takeWhile isspace ys"
    and "dropWhile isspace (xs @ ys) = dropWhile isspace ys"
  using assms by (induction xs) (simp_all add: whitespace_def)

lemma whitespace_stop:
  assumes "whitespace xs" and "\<not> isspace y"
  shows "takeWhile isspace (xs @ y # ys) = xs"
    and "dropWhile isspace (xs @ y # ys) = y # ys"
  using assms by (simp_all add: whitespace_spans)

lemma strip_dropWhile: "strip (dropWhile isspace t) = strip t"
  by (simp add: strip_def lstrip_def dropWhile_idem)

lemma item_sound:
  assumes "rmatch item_pattern line = Some m"
  shows "unchecked_item line (drop (length (concat m)) line)"
proof -
  from assms obtain b r2 w r4 where
    d: "dropWhile isspace line = b # r2" and b: "b = CHR ''-'' \<or> b = CHR ''*''"
    and g1: "takeWhile isspace r2 \<noteq> []"
    and d2: "dropWhile isspace r2 = CHR ''['' # w # CHR '']'' # r4" and w: "isspace w"
    and g2: "takeWhile isspace r4 \<noteq> []"
    and m: "m = [takeWhile isspace line, [b], takeWhile isspace r2, ''['', [w], '']'',
                 takeWhile isspace r4]"
    unfolding item_pattern_match by blast
  let ?i = "takeWhile isspace line" and ?g1 = "takeWhile isspace r2"
  let ?g2 = "takeWhile isspace r4" and ?rest = "dropWhile isspace r4"
  have "line = ?i @ dropWhile isspace line" by simp
  also have "\<dots> = ?i @ b # (?g1 @ dropWhile isspace r2)" unfolding d by simp
  also have "\<dots> = ?i @ b # (?g1 @ CHR ''['' # w # CHR '']'' # (?g2 @ ?rest))"
    unfolding d2 by simp
  finally have line: "line = ?i @ [b] @ ?g1 @ ''['' @ [w] @ '']'' @ ?g2 @ ?rest" by simp
  have "concat m = ?i @ [b] @ ?g1 @ ''['' @ [w] @ '']'' @ ?g2" by (simp add: m)
  with line have "line = concat m @ ?rest" by simp
  then have "drop (length (concat m)) line = ?rest"
    by (metis append_eq_conv_conj)
  moreover have "unchecked_item line ?rest"
    unfolding unchecked_item_def
    using line b g1 g2 w whitespace_takeWhile by blast
  ultimately show ?thesis by simp
qed

lemma item_complete:
  assumes "unchecked_item line text"
  shows "\<exists>m. rmatch item_pattern line = Some m
             \<and> drop (length (concat m)) line = dropWhile isspace text"
proof -
  from assms obtain indent bullet gap1 inner gap2 where
    line: "line = indent @ [bullet] @ gap1 @ ''['' @ [inner] @ '']'' @ gap2 @ text"
    and i: "whitespace indent" and b: "bullet = CHR ''-'' \<or> bullet = CHR ''*''"
    and g1: "gap1 \<noteq> []" "whitespace gap1" and w: "isspace inner"
    and g2: "gap2 \<noteq> []" "whitespace gap2"
    unfolding unchecked_item_def by blast
  let ?r4 = "gap2 @ text"
  let ?r2 = "gap1 @ CHR ''['' # inner # CHR '']'' # ?r4"
  let ?m = "[indent, [bullet], gap1, ''['', [inner], '']'', gap2 @ takeWhile isspace text]"
  have nb: "\<not> isspace bullet" using b by auto
  have l: "line = indent @ bullet # ?r2" using line by simp
  have t0: "takeWhile isspace line = indent" and d0: "dropWhile isspace line = bullet # ?r2"
    unfolding l using whitespace_stop[OF i nb] by simp_all
  have t1: "takeWhile isspace ?r2 = gap1"
    and d1: "dropWhile isspace ?r2 = CHR ''['' # inner # CHR '']'' # ?r4"
    using whitespace_stop[OF g1(2), of "CHR ''[''"] by simp_all
  have t2: "takeWhile isspace ?r4 = gap2 @ takeWhile isspace text"
    and d2: "dropWhile isspace ?r4 = dropWhile isspace text"
    using whitespace_spans[OF g2(2)] by simp_all
  have "rmatch item_pattern line = Some ?m"
    unfolding item_pattern_match
    using d0 b t0 t1 d1 w t2 g1(1) g2(1) by auto
  moreover have "line = concat ?m @ dropWhile isspace text"
    using line by simp
  then have "drop (length (concat ?m)) line = dropWhile isspace text"
    by (metis append_eq_conv_conj)
  ultimately show ?thesis by blast
qed

lemma parse_line_Some:
  "parse_line line = Some t \<longleftrightarrow>
     (\<exists>text. unchecked_item line text \<and> strip text \<noteq> [] \<and> t = title_only (strip text))"
proof
  assume "parse_line line = Some t"
  then obtain m where m: "rmatch item_pattern line = Some m"
    and t: "strip (drop (length (concat m)) line) \<noteq> []"
           "t = title_only (strip (drop (length (concat m)) line))"
    by (auto simp: parse_line_def Let_def split: option.splits if_splits)
  from item_sound[OF m] t
  show "\<exists>text. unchecked_item line text \<and> strip text \<noteq> [] \<and> t = title_only (strip text)"
    by blast
next
  assume "\<exists>text. unchecked_item line text \<and> strip text \<noteq> [] \<and> t = title_only (strip text)"
  then obtain tx where u: "unchecked_item line tx" and s: "strip tx \<noteq> []"
    and t: "t = title_only (strip tx)" by blast
  from item_complete[OF u] obtain m where m: "rmatch item_pattern line = Some m"
    and d: "drop (length (concat m)) line = dropWhile isspace tx" by blast
  show "parse_line line = Some t"
    using m s t by (simp add: parse_line_def d strip_dropWhile)
qed

lemma parse_line_None:
  "parse_line line = None \<longleftrightarrow> (\<forall>text. unchecked_item line text \<longrightarrow> strip text = [])"
proof
  assume n: "parse_line line = None"
  show "\<forall>text. unchecked_item line text \<longrightarrow> strip text = []"
  proof (intro allI impI)
    fix tx assume u: "unchecked_item line tx"
    from item_complete[OF u] obtain m where m: "rmatch item_pattern line = Some m"
      and d: "drop (length (concat m)) line = dropWhile isspace tx" by blast
    from n m d show "strip tx = []"
      by (simp add: parse_line_def strip_dropWhile Let_def split: if_splits)
  qed
next
  assume a: "\<forall>text. unchecked_item line text \<longrightarrow> strip text = []"
  show "parse_line line = None"
  proof (cases "parse_line line")
    case None
    then show ?thesis .
  next
    case (Some t)
    then obtain tx where "unchecked_item line tx" "strip tx \<noteq> []"
      unfolding parse_line_Some by blast
    with a show ?thesis by blast
  qed
qed

lemma collect_tasks_acc: "collect_tasks ls acc = acc @ collect_tasks ls []"
proof (induction ls arbitrary: acc)
  case Nil
  then show ?case by simp
next
  case (Cons l ls)
  show ?case
  proof (cases "parse_line l")
    case None
    then show ?thesis using Cons.IH[of acc] by simp
  next
    case (Some t)
    then show ?thesis using Cons.IH[of "acc @ [t]"] Cons.IH[of "[t]"] by simp
  qed
qed

lemma collect_tasks_Cons:
  "collect_tasks (l # ls) [] =
     (case parse_line l of None \<Rightarrow> collect_tasks ls [] | Some t \<Rightarrow> t # collect_tasks ls [])"
  using collect_tasks_acc[of ls "[t]" for t] by (simp split: option.splits)

lemma extracted_collect: "extracted ls (collect_tasks ls [])"
proof (induction ls)
  case Nil
  show ?case by (simp add: extracted.none)
next
  case (Cons l ls)
  show ?case
  proof (cases "parse_line l")
    case None
    then have "\<And>text. unchecked_item l text \<Longrightarrow> strip text = []"
      unfolding parse_line_None by blast
    from extracted.skip[OF this Cons.IH] None show ?thesis
      by (simp add: collect_tasks_Cons del: collect_tasks.simps)
  next
    case (Some t)
    then obtain tx where "unchecked_item l tx" "strip tx \<noteq> []" "t = title_only (strip tx)"
      unfolding parse_line_Some by blast
    from extracted.item[OF this(1,2) Cons.IH] this(3) Some show ?thesis
      by (simp add: collect_tasks_Cons del: collect_tasks.simps)
  qed
qed

lemma extracted_unique: "extracted ls ts \<Longrightarrow> ts = collect_tasks ls []"
proof (induction rule: extracted.induct)
  case none
  show ?case by simp
next
  case (item line tx lines tasks)
  then have "parse_line line = Some (title_only (strip tx))"
    unfolding parse_line_Some by blast
  with item.IH show ?case by (simp add: collect_tasks_Cons del: collect_tasks.simps)
next
  case (skip line lines tasks)
  then have "parse_line line = None" unfolding parse_line_None by blast
  with skip.IH show ?case by (simp add: collect_tasks_Cons del: collect_tasks.simps)
qed

text \<open>
  C5.  For every checklist document, the tasks \<open>parse_markdown_tasks\<close> returns are
  exactly the unchecked items among its lines, in order: a line yields a task when it
  consists of optional indentation, a bullet \<open>-\<close> or \<open>*\<close>, white space, a box
  \<open>[ ]\<close> holding one white-space character, white space and a text that is not blank,
  and the title is that text with leading and trailing white space removed; every other
  line yields nothing.  So \<open>- [ ] Buy milk\<close> yields the title \<open>Buy milk\<close>, and a line
  with a checked box yields no task.
\<close>

theorem parse_markdown_tasks_extracts:
  "(extracted (split_on newline content) tasks \<longleftrightarrow> tasks = parse_markdown_tasks content)
   \<and> parse_markdown_tasks ''- [ ] Buy milk'' = [title_only ''Buy milk'']
   \<and> parse_markdown_tasks ''- [x] Done thing'' = []
   \<and> parse_markdown_tasks
        (''- [ ] Buy milk'' @ [newline] @ ''- [x] Done thing'' @ [newline] @ ''  * [ ]   Two  '')
      = [title_only ''Buy milk'', title_only ''Two'']"
proof -
  have "extracted (split_on newline content) tasks \<longleftrightarrow> tasks = parse_markdown_tasks content"
    unfolding parse_markdown_tasks_def using extracted_collect extracted_unique by blast
  moreover have "parse_markdown_tasks ''- [ ] Buy milk'' = [title_only ''Buy milk'']"
    by code_simp
  moreover have "parse_markdown_tasks ''- [x] Done thing'' = []"
    by code_simp
  moreover have "parse_markdown_tasks
        (''- [ ] Buy milk'' @ [newline] @ ''- [x] Done thing'' @ [newline] @ ''  * [ ]   Two  '')
      = [title_only ''Buy milk'', title_only ''Two'']"
    by code_simp
  ultimately show ?thesis by blast
qed

theorem parse_markdown_tasks_extracts_witness:
  "extracted (split_on newline ''- [ ] Buy milk'') [title_only ''Buy milk'']
   \<and> \<not> extracted (split_on newline ''- [x] Done thing'') [title_only ''Done thing'']"
  using parse_markdown_tasks_extracts [of "''- [ ] Buy milk''" "[title_only ''Buy milk'']"]
    parse_markdown_tasks_extracts [of "''- [x] Done thing''" "[title_only ''Done thing'']"]
  by simp

end
